theory Spec2Isabelle
  imports Main "HOL-Library.AList"
begin

section \<open>JavaScript values\<close>

text \<open>
  The provider feed is parsed JSON, and the source tests its fields with JavaScript's
  truthiness (\<^verbatim>\<open>if (!stream_id) continue\<close>) and converts them with template literals
  and \<^verbatim>\<open>String(...)\<close>. A field that is absent reads as \<^verbatim>\<open>undefined\<close>. A number
  \<open>JNum n\<close> stands for an integer that a double holds exactly and prints in full decimal
  digits (absolute value below \<open>2\<^sup>5\<^sup>3\<close>), as native ids and category ids are; other
  numbers are outside the model.
\<close>

datatype jsval = JUndefined | JNull | JBool bool | JNum int | JStr string

fun truthy :: "jsval \<Rightarrow> bool" where
  "truthy JUndefined = False"
| "truthy JNull = False"
| "truthy (JBool b) = b"
| "truthy (JNum n) = (n \<noteq> 0)"
| "truthy (JStr s) = (s \<noteq> [])"

definition digit_char :: "nat \<Rightarrow> char" where
  "digit_char d = char_of (48 + d)"

function string_of_nat :: "nat \<Rightarrow> string" where
  "string_of_nat n =
     (if n < 10 then [digit_char n] else string_of_nat (n div 10) @ [digit_char (n mod 10)])"
  by pat_completeness auto
termination
  by (relation "measure id") auto

definition string_of_int :: "int \<Rightarrow> string" where
  "string_of_int i = (if i < 0 then CHR ''-'' # string_of_nat (nat (- i)) else string_of_nat (nat i))"

text \<open>\<^verbatim>\<open>String(v)\<close> and the conversion inside a template literal.\<close>

fun js_to_string :: "jsval \<Rightarrow> string" where
  "js_to_string JUndefined = ''undefined''"
| "js_to_string JNull = ''null''"
| "js_to_string (JBool b) = (if b then ''true'' else ''false'')"
| "js_to_string (JNum n) = string_of_int n"
| "js_to_string (JStr s) = s"

text \<open>\<^verbatim>\<open>a || b\<close>\<close>

definition js_or :: "jsval \<Rightarrow> jsval \<Rightarrow> jsval" where
  "js_or a b = (if truthy a then a else b)"

section \<open>Year derivation\<close>

text \<open>
  \<^verbatim>\<open>name.match(/\((\d{4})\)/)\<close>: the leftmost occurrence of an opening parenthesis, four
  ASCII digits and a closing parenthesis; the result is the captured group.
\<close>

definition is_digit :: "char \<Rightarrow> bool" where
  "is_digit c = (48 \<le> (of_char c :: nat) \<and> (of_char c :: nat) \<le> 57)"

definition digit_val :: "char \<Rightarrow> int" where
  "digit_val c = int (of_char c) - 48"

fun year_token_at :: "string \<Rightarrow> string option" where
  "year_token_at (p # a # b # c # d # q # rest) =
     (if p = CHR ''('' \<and> is_digit a \<and> is_digit b \<and> is_digit c \<and> is_digit d \<and> q = CHR '')''
      then Some [a, b, c, d] else None)"
| "year_token_at _ = None"

fun year_match :: "string \<Rightarrow> string option" where
  "year_match [] = None"
| "year_match (c # cs) =
     (case year_token_at (c # cs) of Some ds \<Rightarrow> Some ds | None \<Rightarrow> year_match cs)"

text \<open>\<^verbatim>\<open>parseInt\<close> on a string of decimal digits.\<close>

definition parseInt :: "string \<Rightarrow> int" where
  "parseInt ds = foldl (\<lambda>acc c. 10 * acc + digit_val c) 0 ds"

text \<open>
  The value bound to the \<^verbatim>\<open>year\<close> column: \<^verbatim>\<open>null\<close>, a number, or the \<^verbatim>\<open>NaN\<close> that
  \<^verbatim>\<open>getFullYear()\<close> returns for an unparsable date.
\<close>

datatype year = YNull | YNaN | YNum int

datatype error = ProviderError | StoreError | TypeError | ConstructorError

text \<open>
  Lines 117--122 (and 178--183), over \<^verbatim>\<open>new Date(releaseDate).getFullYear()\<close>, which is
  \<open>getFullYear\<close> below. A truthy name that is not a string has no \<^verbatim>\<open>match\<close> method: the
  source throws a TypeError there.
\<close>

definition deriveYear :: "(jsval \<Rightarrow> year) \<Rightarrow> jsval \<Rightarrow> jsval \<Rightarrow> error + year" where
  "deriveYear getFullYear releaseDate name =
     (if truthy releaseDate then Inr (getFullYear releaseDate)
      else if truthy name then
        (case name of
           JStr s \<Rightarrow> Inr (case year_match s of Some ds \<Rightarrow> YNum (parseInt ds) | None \<Rightarrow> YNull)
         | _ \<Rightarrow> Inl TypeError)
      else Inr YNull)"

section \<open>Provider-unique ids\<close>

datatype kind = Movie | Series | Episode

fun kind_prefix :: "kind \<Rightarrow> string" where
  "kind_prefix Movie = ''movie''"
| "kind_prefix Series = ''series''"
| "kind_prefix Episode = ''episode''"

text \<open>\<^verbatim>\<open>`movie_${providerId}_${stream_id}`\<close> and \<^verbatim>\<open>`series_${providerId}_${external_series_id}`\<close>\<close>

definition providerUniqueId :: "kind \<Rightarrow> string \<Rightarrow> jsval \<Rightarrow> string" where
  "providerUniqueId k providerId nativeId =
     kind_prefix k @ ''_'' @ providerId @ ''_'' @ js_to_string nativeId"

section \<open>Category merging\<close>

record category =
  category_id :: jsval
  category_name :: jsval

text \<open>
  What a client call gives: a rejection, a value that is not an array, or an array of rows.
\<close>

datatype 'a fetched = FetchFailed | NotArray | FetchedArray "'a list"

fun rows_of :: "'a fetched \<Rightarrow> 'a list" where
  "rows_of (FetchedArray xs) = xs"
| "rows_of _ = []"

text \<open>
  \<^verbatim>\<open>allCategories[cat.category_id] = cat\<close>: a plain object, keyed by the string form of the
  id. Assigning to a key that exists keeps its position; a new key goes last. Assigning an
  object to the key \<^verbatim>\<open>__proto__\<close> sets the prototype of \<^verbatim>\<open>allCategories\<close> and adds no key,
  so \<^verbatim>\<open>Object.values\<close> does not list that category.
\<close>

definition addCategory :: "category \<Rightarrow> (string \<times> category) list \<Rightarrow> (string \<times> category) list" where
  "addCategory cat obj =
     (if js_to_string (category_id cat) = ''__proto__'' then obj
      else AList.update (js_to_string (category_id cat)) cat obj)"

definition allCategories :: "category fetched \<Rightarrow> category fetched \<Rightarrow> (string \<times> category) list" where
  "allCategories vodCategories seriesCategories =
     fold addCategory (rows_of seriesCategories) (fold addCategory (rows_of vodCategories) [])"

text \<open>
  \<^verbatim>\<open>Object.values\<close> lists the array-index keys (canonical decimal numerals below
  \<open>2\<^sup>3\<^sup>2 - 1\<close>) in ascending order first, then the other keys in insertion order.
\<close>

definition is_array_index :: "string \<Rightarrow> bool" where
  "is_array_index k =
     (k \<noteq> [] \<and> list_all is_digit k \<and> (k = ''0'' \<or> hd k \<noteq> CHR ''0'') \<and> parseInt k < 4294967295)"

definition object_values :: "(string \<times> 'a) list \<Rightarrow> 'a list" where
  "object_values obj =
     map snd (sort_key (\<lambda>p. parseInt (fst p)) (filter (\<lambda>p. is_array_index (fst p)) obj)
              @ filter (\<lambda>p. \<not> is_array_index (fst p)) obj)"

definition combinedCategories :: "category fetched \<Rightarrow> category fetched \<Rightarrow> category list" where
  "combinedCategories vodCategories seriesCategories =
     object_values (allCategories vodCategories seriesCategories)"

section \<open>The catalog store\<close>

text \<open>
  The store is an SQLite database (the source types it \<^verbatim>\<open>sqlite.Database\<close>). Its schema is
  not part of the source, so a table is the list of its rows with the columns the source
  reads and writes. The tables \<^verbatim>\<open>movies\<close>, \<^verbatim>\<open>series\<close> and \<^verbatim>\<open>episodes\<close> are
  \<open>entities t Movie\<close>, \<open>entities t Series\<close> and \<open>entities t Episode\<close>, and
  \<^verbatim>\<open>provider_movie_relations\<close> and its two siblings are \<open>relations t\<close> of the kind.
  A \<^verbatim>\<open>provider_unique_id\<close> is \<open>None\<close> where the column is NULL; \<^verbatim>\<open>last_seen\<close> holds
  the ISO timestamp of a scan, modelled by a natural number ordered as the timestamps are.
  Foreign-key actions and triggers, if the schema has any, are not modelled.
\<close>

record entity =
  e_id :: nat
  e_name :: jsval
  e_year :: year
  e_description :: jsval
  e_logo :: jsval
  e_category_name :: jsval
  e_provider_unique_id :: "string option"

record relation =
  r_provider_id :: string
  r_entity_id :: nat
  r_native_id :: jsval
  r_container_extension :: "jsval option"
  r_last_seen :: nat

record tables =
  vod_categories :: "(string \<times> jsval) list"
  entities :: "kind \<Rightarrow> entity list"
  relations :: "kind \<Rightarrow> relation list"

text \<open>
  A store is the current content of the tables and, while a transaction is open, the content
  to which ROLLBACK returns.
\<close>

record store =
  content :: tables
  journal :: "tables option"

text \<open>
  Transaction control as SQLite documents it: BEGIN inside a transaction, and COMMIT or
  ROLLBACK outside one, are errors, and \<^verbatim>\<open>dbRun\<close> (the promisified \<^verbatim>\<open>db.run\<close>) rejects
  with them, as it does with the error of the ALTER TABLE statements of lines 36--49.
\<close>

definition beginTransaction :: "store \<Rightarrow> error + store" where
  "beginTransaction st =
     (case journal st of None \<Rightarrow> Inr (st\<lparr>journal := Some (content st)\<rparr>) | Some _ \<Rightarrow> Inl StoreError)"

definition commit :: "store \<Rightarrow> error + store" where
  "commit st = (case journal st of Some _ \<Rightarrow> Inr (st\<lparr>journal := None\<rparr>) | None \<Rightarrow> Inl StoreError)"

definition rollback :: "store \<Rightarrow> error + store" where
  "rollback st =
     (case journal st of Some saved \<Rightarrow> Inr \<lparr>content = saved, journal = None\<rparr> | None \<Rightarrow> Inl StoreError)"

text \<open>
  The statements that read or write rows. Any of them may be rejected by the store (a
  constraint of the schema, a busy or failing database): which ones is the parameter
  \<open>rejects\<close> of the environment.
\<close>

datatype stmt =
    InsertCategory string jsval
  | SelectProviderUniqueIds kind
  | InsertEntity kind string
  | UpdateEntity kind nat
  | UpsertRelation kind relation
  | DeleteStaleRelations kind
  | DeleteOrphans kind

text \<open>
  What the source takes from outside: the store's verdict on each statement; the local time
  zone of the server, as the offset of local time from UTC in minutes (negative west of
  Greenwich, between \<open>-12\<close> and \<open>+14\<close> hours); what the runtime's \<^verbatim>\<open>Date\<close> makes of a
  value that is not a calendar date in the form \<^verbatim>\<open>YYYY-MM-DD\<close>; and the uniqueness constraint
  of the relation tables (two rows that cannot both be stored), on which INSERT OR REPLACE
  depends.
\<close>

record env =
  rejects :: "stmt \<Rightarrow> bool"
  timezoneOffset :: int
  otherDate :: "jsval \<Rightarrow> year"
  conflicts :: "relation \<Rightarrow> relation \<Rightarrow> bool"

text \<open>
  \<^verbatim>\<open>new Date(v).getFullYear()\<close>. A string of the form \<^verbatim>\<open>YYYY-MM-DD\<close> that names a day of
  the calendar is read as midnight UTC of that day, and \<^verbatim>\<open>getFullYear\<close> gives the year of
  that instant in local time: west of Greenwich it is still the evening before, which for
  the first of January lies in the year before.
\<close>

definition daysInMonth :: "int \<Rightarrow> nat \<Rightarrow> nat" where
  "daysInMonth y m =
     (if m = 2
      then (if y mod 400 = 0 then 29 else if y mod 100 = 0 then 28 else if y mod 4 = 0 then 29 else 28)
      else if m \<in> {4, 6, 9, 11} then 30 else 31)"

fun isoDateOnly :: "string \<Rightarrow> (int \<times> nat \<times> nat) option" where
  "isoDateOnly [y1, y2, y3, y4, h1, m1, m2, h2, d1, d2] =
     (if list_all is_digit [y1, y2, y3, y4, m1, m2, d1, d2] \<and> h1 = CHR ''-'' \<and> h2 = CHR ''-'' then
        (let y = parseInt [y1, y2, y3, y4]; m = nat (parseInt [m1, m2]); d = nat (parseInt [d1, d2])
         in if 1 \<le> m \<and> m \<le> 12 \<and> 1 \<le> d \<and> d \<le> daysInMonth y m then Some (y, m, d) else None)
      else None)"
| "isoDateOnly _ = None"

definition getFullYear :: "env \<Rightarrow> jsval \<Rightarrow> year" where
  "getFullYear ev v =
     (case v of
        JStr s \<Rightarrow>
          (case isoDateOnly s of
             Some (y, m, d) \<Rightarrow> YNum (if timezoneOffset ev < 0 \<and> m = 1 \<and> d = 1 then y - 1 else y)
           | None \<Rightarrow> otherDate ev v)
      | _ \<Rightarrow> otherDate ev v)"

text \<open>
  Modelled from the spec: the key of \<^verbatim>\<open>vod_categories\<close> is declared in the schema, which is
  not in the source; by the spec a category name is stored only if the id is not already
  stored. This is the \<^verbatim>\<open>INSERT OR IGNORE INTO vod_categories\<close> of line 72.
\<close>

definition insertCategoryIfAbsent :: "string \<Rightarrow> jsval \<Rightarrow> tables \<Rightarrow> tables" where
  "insertCategoryIfAbsent cid cname t =
     (if cid \<in> fst ` set (vod_categories t) then t
      else t\<lparr>vod_categories := vod_categories t @ [(cid, cname)]\<rparr>)"

text \<open>
  The id that SQLite gives a new row (\<^verbatim>\<open>this.lastID\<close>): one more than the largest id of the
  table. (With AUTOINCREMENT it may be larger still; the proofs use only that it is positive
  and not in the table.)
\<close>

definition lastID :: "entity list \<Rightarrow> nat" where
  "lastID es = Suc (fold max (map e_id es) 0)"

definition insertEntity :: "kind \<Rightarrow> entity \<Rightarrow> tables \<Rightarrow> tables" where
  "insertEntity k e t = t\<lparr>entities := (entities t)(k := entities t k @ [e])\<rparr>"

text \<open>\<^verbatim>\<open>UPDATE movies SET name = ?, year = ?, description = ?, logo = ?, category_name = ? WHERE id = ?\<close>\<close>

definition updateEntity ::
  "kind \<Rightarrow> jsval \<Rightarrow> year \<Rightarrow> jsval \<Rightarrow> jsval \<Rightarrow> jsval \<Rightarrow> nat \<Rightarrow> tables \<Rightarrow> tables" where
  "updateEntity k name yr description logo categoryName i t =
     t\<lparr>entities := (entities t)(k :=
        map (\<lambda>e. if e_id e = i
                  then e\<lparr>e_name := name, e_year := yr, e_description := description,
                         e_logo := logo, e_category_name := categoryName\<rparr>
                  else e) (entities t k))\<rparr>"

text \<open>\<^verbatim>\<open>INSERT OR REPLACE INTO provider_movie_relations\<close>: the rows in conflict with the new one are deleted, then it is inserted.\<close>

definition upsertRelation :: "env \<Rightarrow> kind \<Rightarrow> relation \<Rightarrow> tables \<Rightarrow> tables" where
  "upsertRelation ev k r t =
     t\<lparr>relations := (relations t)(k := filter (\<lambda>r'. \<not> conflicts ev r r') (relations t k) @ [r])\<rparr>"

text \<open>\<^verbatim>\<open>new Map(existingMovies.map(m => [m.provider_unique_id, m.id]))\<close> over the rows whose \<^verbatim>\<open>provider_unique_id\<close> is not NULL.\<close>

definition loadIdMap :: "entity list \<Rightarrow> (string \<rightharpoonup> nat)" where
  "loadIdMap es =
     fold (\<lambda>e m. case e_provider_unique_id e of Some p \<Rightarrow> m(p \<mapsto> e_id e) | None \<Rightarrow> m) es Map.empty"

section \<open>Status sink\<close>

datatype phase = CredentialsPhase | CategoriesPhase | EntityPhase kind | CleanupPhase | PlaylistPhase

datatype status =
    FetchingCategories
  | ProcessingCategories nat
  | Fetching kind
  | Processing kind nat
  | CleaningUp
  | ProcessingPlaylist nat nat
  | FailedStatus phase error
  | SuccessStatus

text \<open>
  A \<^verbatim>\<open>catch\<close> block of \<^verbatim>\<open>refreshVodContent\<close>: ROLLBACK, then the report. When the ROLLBACK
  is rejected the \<^verbatim>\<open>await\<close> throws inside the handler, the report is not reached and the
  error leaves the function: the third component is that error.
\<close>

definition catchBlock :: "phase \<Rightarrow> error \<Rightarrow> store \<Rightarrow> status list \<Rightarrow> store \<times> status list \<times> error option" where
  "catchBlock ph e st log =
     (case rollback st of
        Inl e' \<Rightarrow> (st, log, Some e')
      | Inr st' \<Rightarrow> (st', log @ [FailedStatus ph e], None))"

section \<open>Phase 0: categories\<close>

text \<open>
  Lines 73--83. A statement that fails leaves the transaction open, and the ROLLBACK of the
  handler undoes what the earlier statements wrote, so the loop returns only the error.
\<close>

fun insertCategories ::
  "env \<Rightarrow> category list \<Rightarrow> tables \<Rightarrow> (string \<rightharpoonup> jsval) \<Rightarrow> error + tables \<times> (string \<rightharpoonup> jsval)" where
  "insertCategories ev [] t categoryMap = Inr (t, categoryMap)"
| "insertCategories ev (catData # rest) t categoryMap =
     (if truthy (category_id catData) \<and> truthy (category_name catData) then
        (if rejects ev (InsertCategory (js_to_string (category_id catData)) (category_name catData))
         then Inl StoreError
         else insertCategories ev rest
                (insertCategoryIfAbsent (js_to_string (category_id catData)) (category_name catData) t)
                (categoryMap(js_to_string (category_id catData) \<mapsto> category_name catData)))
      else insertCategories ev rest t categoryMap)"

record feed_row =
  row_name :: jsval
  row_plot :: jsval
  row_icon :: jsval
  row_native_id :: jsval
  row_container_extension :: jsval
  row_category_id :: jsval
  row_releaseDate :: jsval

record feed =
  vodCategories :: "category fetched"
  seriesCategories :: "category fetched"
  vodStreams :: "feed_row fetched"
  seriesList :: "feed_row fetched"

text \<open>How a phase ends: an error left the function, the function returned, or the run goes on.\<close>

datatype 'a flow = Escaped error | Returned | Continue 'a

fun stopRun :: "store \<times> status list \<times> error option \<Rightarrow> store \<times> status list \<times> 'a flow" where
  "stopRun (st, log, Some e) = (st, log, Escaped e)"
| "stopRun (st, log, None) = (st, log, Returned)"

definition categoriesPhase ::
  "env \<Rightarrow> feed \<Rightarrow> store \<Rightarrow> status list \<Rightarrow> store \<times> status list \<times> (string \<rightharpoonup> jsval) flow" where
  "categoriesPhase ev fd st log =
     (let log1 = log @ [FetchingCategories] in
      if vodCategories fd = FetchFailed \<or> seriesCategories fd = FetchFailed
      then stopRun (catchBlock CategoriesPhase ProviderError st log1)
      else
        let combined = combinedCategories (vodCategories fd) (seriesCategories fd) in
        if combined = [] then (st, log1, Continue Map.empty)
        else
          let log2 = log1 @ [ProcessingCategories (length combined)] in
          case beginTransaction st of
            Inl e \<Rightarrow> stopRun (catchBlock CategoriesPhase e st log2)
          | Inr st1 \<Rightarrow>
              (case insertCategories ev combined (content st1) Map.empty of
                 Inl e \<Rightarrow> stopRun (catchBlock CategoriesPhase e st1 log2)
               | Inr (t, categoryMap) \<Rightarrow>
                   (case commit (st1\<lparr>content := t\<rparr>) of
                      Inl e \<Rightarrow> stopRun (catchBlock CategoriesPhase e (st1\<lparr>content := t\<rparr>) log2)
                    | Inr st2 \<Rightarrow> (st2, log2, Continue categoryMap))))"

section \<open>Phases 1 and 2: movies and series\<close>

text \<open>
  The loop over the movies and the loop over the series (lines 112--143 and 173--204) are the same code up to the
  kind's prefix, the fallback category label and the extension column, which only the movie
  relations have. One feed row, for either kind: \<open>row_icon\<close> is \<^verbatim>\<open>stream_icon\<close> or
  \<^verbatim>\<open>cover\<close>, \<open>row_native_id\<close> is \<^verbatim>\<open>stream_id\<close> or \<^verbatim>\<open>series_id\<close>.
\<close>

fun fallbackCategory :: "kind \<Rightarrow> string" where
  "fallbackCategory Series = ''Series''"
| "fallbackCategory _ = ''VOD''"

fun extensionColumn :: "kind \<Rightarrow> jsval \<Rightarrow> jsval option" where
  "extensionColumn Movie ext = Some (js_or ext (JStr ''mp4''))"
| "extensionColumn _ ext = None"

definition mapGet :: "(string \<rightharpoonup> jsval) \<Rightarrow> string \<Rightarrow> jsval" where
  "mapGet m key = (case m key of Some v \<Rightarrow> v | None \<Rightarrow> JUndefined)"

text \<open>
  Lines 125--140: an id found in the map (and truthy) is updated, otherwise a row is
  inserted and its id stored in the map. The result is the id of the entity.
\<close>

definition upsertEntity ::
  "env \<Rightarrow> kind \<Rightarrow> string \<Rightarrow> jsval \<Rightarrow> year \<Rightarrow> jsval \<Rightarrow> jsval \<Rightarrow> jsval \<Rightarrow>
   tables \<times> (string \<rightharpoonup> nat) \<Rightarrow> error + (tables \<times> (string \<rightharpoonup> nat)) \<times> nat" where
  "upsertEntity ev k uniqueId name yr description logo categoryName s =
     (case s of (t, providerUniqueIdMap) \<Rightarrow>
        let found = (case providerUniqueIdMap uniqueId of Some i \<Rightarrow> i | None \<Rightarrow> 0) in
        if found \<noteq> 0 then
          (if rejects ev (UpdateEntity k found) then Inl StoreError
           else Inr ((updateEntity k name yr description logo categoryName found t, providerUniqueIdMap), found))
        else
          (if rejects ev (InsertEntity k uniqueId) then Inl StoreError
           else
             let newId = lastID (entities t k) in
             Inr ((insertEntity k
                     \<lparr>e_id = newId, e_name = name, e_year = yr, e_description = description,
                      e_logo = logo, e_category_name = categoryName,
                      e_provider_unique_id = Some uniqueId\<rparr> t,
                   providerUniqueIdMap(uniqueId \<mapsto> newId)), newId)))"

definition writeRelation :: "env \<Rightarrow> kind \<Rightarrow> relation \<Rightarrow> tables \<Rightarrow> error + tables" where
  "writeRelation ev k r t =
     (if rejects ev (UpsertRelation k r) then Inl StoreError else Inr (upsertRelation ev k r t))"

definition upsertRow ::
  "env \<Rightarrow> kind \<Rightarrow> string \<Rightarrow> nat \<Rightarrow> (string \<rightharpoonup> jsval) \<Rightarrow> feed_row \<Rightarrow>
   tables \<times> (string \<rightharpoonup> nat) \<Rightarrow> error + tables \<times> (string \<rightharpoonup> nat)" where
  "upsertRow ev k providerId scanStartTime categoryMap row s =
     (if \<not> truthy (row_native_id row) then Inr s
      else
        case deriveYear (getFullYear ev) (row_releaseDate row) (row_name row) of
          Inl e \<Rightarrow> Inl e
        | Inr yr \<Rightarrow>
            let categoryName =
                  js_or (mapGet categoryMap (js_to_string (row_category_id row))) (JStr (fallbackCategory k)) in
            (case upsertEntity ev k (providerUniqueId k providerId (row_native_id row))
                    (row_name row) yr (row_plot row) (row_icon row) categoryName s of
               Inl e \<Rightarrow> Inl e
             | Inr ((t, providerUniqueIdMap), entityId) \<Rightarrow>
                 (case writeRelation ev k
                         \<lparr>r_provider_id = providerId, r_entity_id = entityId,
                          r_native_id = row_native_id row,
                          r_container_extension = extensionColumn k (row_container_extension row),
                          r_last_seen = scanStartTime\<rparr> t of
                    Inl e \<Rightarrow> Inl e
                  | Inr t' \<Rightarrow> Inr (t', providerUniqueIdMap))))"

fun upsertRows ::
  "env \<Rightarrow> kind \<Rightarrow> string \<Rightarrow> nat \<Rightarrow> (string \<rightharpoonup> jsval) \<Rightarrow> feed_row list \<Rightarrow>
   tables \<times> (string \<rightharpoonup> nat) \<Rightarrow> error + tables \<times> (string \<rightharpoonup> nat)" where
  "upsertRows ev k providerId scanStartTime categoryMap [] s = Inr s"
| "upsertRows ev k providerId scanStartTime categoryMap (row # rest) s =
     (case upsertRow ev k providerId scanStartTime categoryMap row s of
        Inl e \<Rightarrow> Inl e
      | Inr s' \<Rightarrow> upsertRows ev k providerId scanStartTime categoryMap rest s')"

definition entityPhase ::
  "env \<Rightarrow> kind \<Rightarrow> string \<Rightarrow> nat \<Rightarrow> (string \<rightharpoonup> jsval) \<Rightarrow> feed_row fetched \<Rightarrow>
   store \<Rightarrow> status list \<Rightarrow> store \<times> status list \<times> error option" where
  "entityPhase ev k providerId scanStartTime categoryMap fetchedRows st log =
     (let log1 = log @ [Fetching k] in
      case fetchedRows of
        FetchFailed \<Rightarrow> catchBlock (EntityPhase k) ProviderError st log1
      | NotArray \<Rightarrow> (st, log1, None)
      | FetchedArray rows \<Rightarrow>
          let log2 = log1 @ [Processing k (length rows)] in
          (case beginTransaction st of
             Inl e \<Rightarrow> catchBlock (EntityPhase k) e st log2
           | Inr st1 \<Rightarrow>
               if rejects ev (SelectProviderUniqueIds k)
               then catchBlock (EntityPhase k) StoreError st1 log2
               else
                 (case upsertRows ev k providerId scanStartTime categoryMap rows
                         (content st1, loadIdMap (entities (content st1) k)) of
                    Inl e \<Rightarrow> catchBlock (EntityPhase k) e st1 log2
                  | Inr (t, providerUniqueIdMap) \<Rightarrow>
                      (case commit (st1\<lparr>content := t\<rparr>) of
                         Inl e \<Rightarrow> catchBlock (EntityPhase k) e (st1\<lparr>content := t\<rparr>) log2
                       | Inr st2 \<Rightarrow> (st2, log2, None)))))"

section \<open>Phase 4: cleanup\<close>

text \<open>\<^verbatim>\<open>DELETE FROM provider_movie_relations WHERE provider_id = ? AND last_seen < ?\<close>\<close>

definition deleteStaleRelations :: "kind \<Rightarrow> string \<Rightarrow> nat \<Rightarrow> tables \<Rightarrow> tables" where
  "deleteStaleRelations k providerId scanStartTime t =
     t\<lparr>relations := (relations t)(k :=
        filter (\<lambda>r. \<not> (r_provider_id r = providerId \<and> r_last_seen r < scanStartTime)) (relations t k))\<rparr>"

text \<open>\<^verbatim>\<open>DELETE FROM movies WHERE id NOT IN (SELECT DISTINCT movie_id FROM provider_movie_relations)\<close>\<close>

definition deleteOrphans :: "kind \<Rightarrow> tables \<Rightarrow> tables" where
  "deleteOrphans k t =
     t\<lparr>entities := (entities t)(k :=
        filter (\<lambda>e. e_id e \<in> set (map r_entity_id (relations t k))) (entities t k))\<rparr>"

definition run :: "env \<Rightarrow> stmt \<Rightarrow> (tables \<Rightarrow> tables) \<Rightarrow> error + tables \<Rightarrow> error + tables" where
  "run ev s f r = (case r of Inl e \<Rightarrow> Inl e | Inr t \<Rightarrow> if rejects ev s then Inl StoreError else Inr (f t))"

text \<open>Lines 223--235, in the order of the source.\<close>

definition cleanupStatements :: "env \<Rightarrow> string \<Rightarrow> nat \<Rightarrow> tables \<Rightarrow> error + tables" where
  "cleanupStatements ev providerId scanStartTime t =
     run ev (DeleteOrphans Episode) (deleteOrphans Episode)
      (run ev (DeleteOrphans Series) (deleteOrphans Series)
        (run ev (DeleteOrphans Movie) (deleteOrphans Movie)
          (run ev (DeleteStaleRelations Episode) (deleteStaleRelations Episode providerId scanStartTime)
            (run ev (DeleteStaleRelations Series) (deleteStaleRelations Series providerId scanStartTime)
              (run ev (DeleteStaleRelations Movie) (deleteStaleRelations Movie providerId scanStartTime)
                (Inr t))))))"

definition cleanupPhase ::
  "env \<Rightarrow> string \<Rightarrow> nat \<Rightarrow> store \<Rightarrow> status list \<Rightarrow> store \<times> status list \<times> error option" where
  "cleanupPhase ev providerId scanStartTime st log =
     (let log1 = log @ [CleaningUp] in
      case beginTransaction st of
        Inl e \<Rightarrow> catchBlock CleanupPhase e st log1
      | Inr st1 \<Rightarrow>
          (case cleanupStatements ev providerId scanStartTime (content st1) of
             Inl e \<Rightarrow> catchBlock CleanupPhase e st1 log1
           | Inr t \<Rightarrow>
               (case commit (st1\<lparr>content := t\<rparr>) of
                  Inl e \<Rightarrow> catchBlock CleanupPhase e (st1\<lparr>content := t\<rparr>) log1
                | Inr st2 \<Rightarrow> (st2, log1, None))))"

section \<open>The reconciliation run\<close>

text \<open>
  The provider: its id and what lines 15--32 make of its credentials: unusable
  (\<^verbatim>\<open>xc_data\<close> missing, malformed or incomplete: reported, and the run returns), a server URL
  that the client's constructor refuses (it throws outside any handler), or usable.
\<close>

datatype credentials = Unusable | BadServerUrl | Usable

record provider =
  provider_id :: string
  xc_data :: credentials

text \<open>
  \<^verbatim>\<open>refreshVodContent\<close>: the final store, the status sink's messages in order, and the
  error with which the returned promise rejects, if it does. The two ALTER TABLE statements
  change no row and swallow their errors; they are left out. \<open>scanStartTime\<close> is read once,
  by the caller of the model.
\<close>

definition refreshVodContent ::
  "env \<Rightarrow> provider \<Rightarrow> feed \<Rightarrow> nat \<Rightarrow> store \<Rightarrow> store \<times> status list \<times> error option" where
  "refreshVodContent ev prov fd scanStartTime st =
     (case xc_data prov of
        Unusable \<Rightarrow> (st, [FailedStatus CredentialsPhase TypeError], None)
      | BadServerUrl \<Rightarrow> (st, [], Some ConstructorError)
      | Usable \<Rightarrow>
          (case categoriesPhase ev fd st [] of
             (st0, log0, Escaped e) \<Rightarrow> (st0, log0, Some e)
           | (st0, log0, Returned) \<Rightarrow> (st0, log0, None)
           | (st0, log0, Continue categoryMap) \<Rightarrow>
               (case entityPhase ev Movie (provider_id prov) scanStartTime categoryMap (vodStreams fd) st0 log0 of
                  (st1, log1, Some e) \<Rightarrow> (st1, log1, Some e)
                | (st1, log1, None) \<Rightarrow>
                    (case entityPhase ev Series (provider_id prov) scanStartTime categoryMap (seriesList fd) st1 log1 of
                       (st2, log2, Some e) \<Rightarrow> (st2, log2, Some e)
                     | (st2, log2, None) \<Rightarrow>
                         (case cleanupPhase ev (provider_id prov) scanStartTime st2 log2 of
                            (st3, log3, Some e) \<Rightarrow> (st3, log3, Some e)
                          | (st3, log3, None) \<Rightarrow> (st3, log3 @ [SuccessStatus], None))))))"

section \<open>Playlist ingestion\<close>

text \<open>
  Strings are lists of 8-bit characters, read as the code units U+0000 to U+00FF. The
  string methods of the source, on that range.
\<close>

definition is_space :: "char \<Rightarrow> bool" where
  "is_space c = ((of_char c :: nat) \<in> {9, 10, 11, 12, 13, 32, 160})"

definition trim :: "string \<Rightarrow> string" where
  "trim s = rev (dropWhile is_space (rev (dropWhile is_space s)))"

definition startsWith :: "string \<Rightarrow> string \<Rightarrow> bool" where
  "startsWith s p = (take (length p) s = p)"

fun js_includes :: "string \<Rightarrow> string \<Rightarrow> bool" where
  "js_includes [] p = (p = [])"
| "js_includes (c # cs) p = (startsWith (c # cs) p \<or> js_includes cs p)"

fun js_split :: "string \<Rightarrow> char \<Rightarrow> string list" where
  "js_split [] sep = [[]]"
| "js_split (c # cs) sep =
     (if c = sep then [] # js_split cs sep
      else (case js_split cs sep of [] \<Rightarrow> [[c]] | piece # pieces \<Rightarrow> (c # piece) # pieces))"





text \<open>
  \<^verbatim>\<open>/([a-zA-Z0-9_-]+)="([^"]*)"/g\<close> at the start of a string: the key is the longest run of
  key characters (a shorter one is followed by a key character, not by \<^verbatim>\<open>=\<close>), the value
  runs to the next double quote, which must exist. The result has the length of the match.
\<close>

definition is_key_char :: "char \<Rightarrow> bool" where
  "is_key_char c =
     (let n = (of_char c :: nat) in
      (97 \<le> n \<and> n \<le> 122) \<or> (65 \<le> n \<and> n \<le> 90) \<or> (48 \<le> n \<and> n \<le> 57) \<or> c = CHR ''_'' \<or> c = CHR ''-'')"

definition attributeAt :: "string \<Rightarrow> (string \<times> string \<times> nat) option" where
  "attributeAt s =
     (let key = takeWhile is_key_char s in
      if key = [] then None
      else
        case dropWhile is_key_char s of
          e # q # rest \<Rightarrow>
            if e = CHR ''='' \<and> q = CHR 0x22 then
              (let val = takeWhile (\<lambda>x. x \<noteq> CHR 0x22) rest in
               case dropWhile (\<lambda>x. x \<noteq> CHR 0x22) rest of
                 [] \<Rightarrow> None
               | _ # _ \<Rightarrow> Some (key, val, length key + length val + 3))
            else None
        | _ \<Rightarrow> None)"

text \<open>
  The \<^verbatim>\<open>exec\<close> loop of lines 277--279: the leftmost match from \<^verbatim>\<open>lastIndex\<close> on, then on
  from its end. The first argument counts the characters still covered by the last match.
  The loop runs until \<^verbatim>\<open>exec\<close> returns null, which resets \<^verbatim>\<open>lastIndex\<close>, so every
  line is scanned from its start.
\<close>

fun scanAttributes :: "nat \<Rightarrow> string \<Rightarrow> (string \<times> string) list" where
  "scanAttributes n [] = []"
| "scanAttributes (Suc n) (c # cs) = scanAttributes n cs"
| "scanAttributes 0 (c # cs) =
     (case attributeAt (c # cs) of
        Some (key, val, len) \<Rightarrow> (key, val) # scanAttributes (len - 1) cs
      | None \<Rightarrow> scanAttributes 0 cs)"

text \<open>
  \<^verbatim>\<open>line.match(/,(.*)$/)\<close>: the text after the first comma that has no line terminator
  behind it (\<^verbatim>\<open>.\<close> does not match one, and \<^verbatim>\<open>$\<close> is the end of the string).
\<close>

fun afterComma :: "string \<Rightarrow> string option" where
  "afterComma [] = None"
| "afterComma (c # cs) =
     (if c = CHR '','' \<and> (\<forall>x \<in> set cs. x \<noteq> CHR 0x0A \<and> x \<noteq> CHR 0x0D) then Some cs else afterComma cs)"

record extinf =
  x_line :: string
  x_attributes :: "(string \<times> string) list"
  x_name :: string

record entry = extinf +
  x_url :: string

text \<open>
  \<^verbatim>\<open>attributes[key]\<close>: the last assignment to the key, or undefined. (Assigning a string to
  the key \<^verbatim>\<open>__proto__\<close> of the plain object does nothing, so that key is never held.)
\<close>

definition attributeGet :: "(string \<times> string) list \<Rightarrow> string \<Rightarrow> string option" where
  "attributeGet attrs key = map_of (rev attrs) key"

definition parseExtInf :: "string \<Rightarrow> extinf" where
  "parseExtInf line =
     \<lparr>x_line = trim line,
      x_attributes = filter (\<lambda>a. fst a \<noteq> ''__proto__'') (scanAttributes 0 line),
      x_name = (case afterComma line of Some n \<Rightarrow> trim n | None \<Rightarrow> ''Untitled'')\<rparr>"

definition withUrl :: "extinf \<Rightarrow> string \<Rightarrow> entry" where
  "withUrl x url = \<lparr>x_line = x_line x, x_attributes = x_attributes x, x_name = x_name x, x_url = url\<rparr>"

text \<open>Lines 273--294: the pending entry \<^verbatim>\<open>currentExtInf\<close>, and the two lists.\<close>

fun parseLines :: "string list \<Rightarrow> extinf option \<Rightarrow> entry list \<Rightarrow> entry list \<Rightarrow> entry list \<times> entry list" where
  "parseLines [] currentExtInf movies series = (movies, series)"
| "parseLines (line # rest) currentExtInf movies series =
     (if startsWith line ''#EXTINF:'' then parseLines rest (Some (parseExtInf line)) movies series
      else
        case currentExtInf of
          Some x \<Rightarrow>
            if startsWith (trim line) ''http'' then
              (let url = trim line;
                   isMovie = (js_includes url ''/movie/'' \<or> attributeGet (x_attributes x) ''tvg-type'' = Some ''movie'');
                   isSeries = (js_includes url ''/series/'' \<or> attributeGet (x_attributes x) ''tvg-type'' = Some ''series'')
               in if isMovie then parseLines rest None (movies @ [withUrl x url]) series
                  else if isSeries then parseLines rest None movies (series @ [withUrl x url])
                  else parseLines rest None movies series)
            else parseLines rest currentExtInf movies series
        | None \<Rightarrow> parseLines rest currentExtInf movies series)"

definition parsePlaylist :: "string \<Rightarrow> entry list \<times> entry list" where
  "parsePlaylist m3uContent = parseLines (js_split m3uContent (CHR 0x0A)) None [] []"








section \<open>Notions used in the statements\<close>

text \<open>The key under which a category is held in \<^verbatim>\<open>allCategories\<close> and in \<^verbatim>\<open>categoryMap\<close>.\<close>

definition category_key :: "category \<Rightarrow> string" where
  "category_key c = js_to_string (category_id c)"

definition keyed :: "(string \<times> category) list \<Rightarrow> bool" where
  "keyed obj = (distinct (map fst obj) \<and> (\<forall>k c. map_of obj k = Some c \<longrightarrow> k = category_key c))"

text \<open>What the loop of lines 73--83 does to \<^verbatim>\<open>categoryMap\<close> when no statement is rejected.\<close>

fun setCategories :: "category list \<Rightarrow> (string \<rightharpoonup> jsval) \<Rightarrow> (string \<rightharpoonup> jsval)" where
  "setCategories [] categoryMap = categoryMap"
| "setCategories (catData # rest) categoryMap =
     (if truthy (category_id catData) \<and> truthy (category_name catData)
      then setCategories rest (categoryMap(js_to_string (category_id catData) \<mapsto> category_name catData))
      else setCategories rest categoryMap)"

text \<open>
  A \<^verbatim>\<open>(YYYY)\<close> token at index \<open>i\<close> of a name, in the words of the spec: an opening
  parenthesis, four digits, a closing parenthesis.
\<close>

definition year_token_index :: "string \<Rightarrow> nat \<Rightarrow> bool" where
  "year_token_index s i =
     (i + 5 < length s \<and> s ! i = CHR ''('' \<and> is_digit (s ! (i + 1)) \<and> is_digit (s ! (i + 2)) \<and>
      is_digit (s ! (i + 3)) \<and> is_digit (s ! (i + 4)) \<and> s ! (i + 5) = CHR '')'')"

text \<open>Inputs of the examples: a store that rejects nothing, an empty store, a provider.\<close>

definition accepting :: env where
  "accepting =
     \<lparr>rejects = (\<lambda>s. False), timezoneOffset = 0, otherDate = (\<lambda>d. YNaN),
      conflicts = (\<lambda>a b. r_provider_id a = r_provider_id b \<and> r_native_id a = r_native_id b)\<rparr>"

definition emptyTables :: tables where
  "emptyTables = \<lparr>vod_categories = [], entities = (\<lambda>k. []), relations = (\<lambda>k. [])\<rparr>"

definition emptyStore :: store where
  "emptyStore = \<lparr>content = emptyTables, journal = None\<rparr>"

definition providerP :: provider where
  "providerP = \<lparr>provider_id = ''p'', xc_data = Usable\<rparr>"

text \<open>
  A store with two movies and two providers: movie 1 is referenced by provider a and by a
  stale relation of provider b, movie 2 only by a stale relation of provider b.
\<close>

definition movieNamed :: "nat \<Rightarrow> string \<Rightarrow> string \<Rightarrow> entity" where
  "movieNamed i n uid =
     \<lparr>e_id = i, e_name = JStr n, e_year = YNull, e_description = JNull, e_logo = JNull,
      e_category_name = JStr ''VOD'', e_provider_unique_id = Some uid\<rparr>"

definition movieRelation :: "string \<Rightarrow> nat \<Rightarrow> string \<Rightarrow> nat \<Rightarrow> relation" where
  "movieRelation p i sid seen =
     \<lparr>r_provider_id = p, r_entity_id = i, r_native_id = JStr sid,
      r_container_extension = Some (JStr ''mp4''), r_last_seen = seen\<rparr>"

definition sharedTables :: tables where
  "sharedTables =
     \<lparr>vod_categories = [],
      entities = (\<lambda>k. if k = Movie then [movieNamed 1 ''Heat'' ''movie_a_7'', movieNamed 2 ''Ronin'' ''movie_b_9''] else []),
      relations = (\<lambda>k. if k = Movie
                        then [movieRelation ''a'' 1 ''7'' 3, movieRelation ''b'' 1 ''8'' 3, movieRelation ''b'' 2 ''9'' 3]
                        else [])\<rparr>"

definition sharedStore :: store where
  "sharedStore = \<lparr>content = sharedTables, journal = None\<rparr>"

text \<open>The six DELETE statements of the cleanup, none of them rejected.\<close>

definition cleaned :: "string \<Rightarrow> nat \<Rightarrow> tables \<Rightarrow> tables" where
  "cleaned providerId scanStartTime t =
     deleteOrphans Episode (deleteOrphans Series (deleteOrphans Movie
       (deleteStaleRelations Episode providerId scanStartTime
         (deleteStaleRelations Series providerId scanStartTime
           (deleteStaleRelations Movie providerId scanStartTime t)))))"



text \<open>A feed row for a movie.\<close>

definition rowOne :: feed_row where
  "rowOne =
     \<lparr>row_name = JStr ''A Movie (2001)'', row_plot = JUndefined, row_icon = JUndefined,
      row_native_id = JStr ''10'', row_container_extension = JUndefined,
      row_category_id = JStr ''5'', row_releaseDate = JUndefined\<rparr>"

text \<open>A feed of one category and one movie, and the same feed with a request that fails.\<close>

definition feedOne :: feed where
  "feedOne =
     \<lparr>vodCategories = FetchedArray [\<lparr>category_id = JStr ''5'', category_name = JStr ''Action''\<rparr>],
      seriesCategories = FetchedArray [],
      vodStreams = FetchedArray [rowOne],
      seriesList = FetchedArray []\<rparr>"

text \<open>
  A server whose local time is five hours behind UTC, and a feed whose movie has a release
  date.
\<close>

definition westOfGreenwich :: env where
  "westOfGreenwich = accepting\<lparr>timezoneOffset := - 300\<rparr>"

definition feedDated :: feed where
  "feedDated =
     feedOne\<lparr>vodStreams :=
       FetchedArray [rowOne\<lparr>row_name := JStr ''Heat'', row_releaseDate := JStr ''1996-01-01''\<rparr>]\<rparr>"


section \<open>The effect of an accepted feed\<close>

text \<open>
  The notions below serve the statements and proofs about whole runs. \<open>applyRow\<close> is
  what \<open>upsertRow\<close> does to the entity table of the kind, to its relation table and to the
  id map when no statement of the row is rejected (lemma \<open>upsertRow_applyRow\<close>).
\<close>

definition uniqueIdOf :: "kind \<Rightarrow> string \<Rightarrow> feed_row \<Rightarrow> string" where
  "uniqueIdOf k providerId row = providerUniqueId k providerId (row_native_id row)"

definition rowYear :: "env \<Rightarrow> feed_row \<Rightarrow> year" where
  "rowYear ev row =
     (case deriveYear (getFullYear ev) (row_releaseDate row) (row_name row) of Inr y \<Rightarrow> y | Inl e \<Rightarrow> YNull)"

definition rowCategory :: "(string \<rightharpoonup> jsval) \<Rightarrow> kind \<Rightarrow> feed_row \<Rightarrow> jsval" where
  "rowCategory categoryMap k row =
     js_or (mapGet categoryMap (js_to_string (row_category_id row))) (JStr (fallbackCategory k))"

definition refresh :: "env \<Rightarrow> kind \<Rightarrow> (string \<rightharpoonup> jsval) \<Rightarrow> feed_row \<Rightarrow> entity \<Rightarrow> entity" where
  "refresh ev k categoryMap row e =
     e\<lparr>e_name := row_name row, e_year := rowYear ev row, e_description := row_plot row,
       e_logo := row_icon row, e_category_name := rowCategory categoryMap k row\<rparr>"

definition created :: "env \<Rightarrow> kind \<Rightarrow> (string \<rightharpoonup> jsval) \<Rightarrow> string \<Rightarrow> feed_row \<Rightarrow> nat \<Rightarrow> entity" where
  "created ev k categoryMap providerId row i =
     \<lparr>e_id = i, e_name = row_name row, e_year = rowYear ev row, e_description = row_plot row,
      e_logo = row_icon row, e_category_name = rowCategory categoryMap k row,
      e_provider_unique_id = Some (uniqueIdOf k providerId row)\<rparr>"

definition rowRelation :: "kind \<Rightarrow> string \<Rightarrow> nat \<Rightarrow> feed_row \<Rightarrow> nat \<Rightarrow> relation" where
  "rowRelation k providerId scanStartTime row i =
     \<lparr>r_provider_id = providerId, r_entity_id = i, r_native_id = row_native_id row,
      r_container_extension = extensionColumn k (row_container_extension row),
      r_last_seen = scanStartTime\<rparr>"

definition found :: "(string \<rightharpoonup> nat) \<Rightarrow> string \<Rightarrow> nat" where
  "found m u = (case m u of Some i \<Rightarrow> i | None \<Rightarrow> 0)"

definition applyRow ::
  "env \<Rightarrow> kind \<Rightarrow> string \<Rightarrow> nat \<Rightarrow> (string \<rightharpoonup> jsval) \<Rightarrow> feed_row \<Rightarrow>
   entity list \<times> relation list \<times> (string \<rightharpoonup> nat) \<Rightarrow> entity list \<times> relation list \<times> (string \<rightharpoonup> nat)" where
  "applyRow ev k providerId scanStartTime categoryMap row s =
     (case s of (es, rs, m) \<Rightarrow>
        if \<not> truthy (row_native_id row) then s
        else
          let u = uniqueIdOf k providerId row;
              i = (if found m u \<noteq> 0 then found m u else lastID es);
              r = rowRelation k providerId scanStartTime row i
          in (if found m u \<noteq> 0
              then map (\<lambda>e. if e_id e = i then refresh ev k categoryMap row e else e) es
              else es @ [created ev k categoryMap providerId row i],
              filter (\<lambda>r'. \<not> conflicts ev r r') rs @ [r],
              if found m u \<noteq> 0 then m else m(u \<mapsto> i)))"

definition loopResult ::
  "env \<Rightarrow> kind \<Rightarrow> string \<Rightarrow> nat \<Rightarrow> (string \<rightharpoonup> jsval) \<Rightarrow> feed_row list \<Rightarrow> tables \<Rightarrow>
   entity list \<times> relation list \<times> (string \<rightharpoonup> nat)" where
  "loopResult ev k providerId scanStartTime categoryMap rows t =
     fold (applyRow ev k providerId scanStartTime categoryMap) rows
       (entities t k, relations t k, loadIdMap (entities t k))"




text \<open>
  What the status sink tells about a run. The phase of a kind committed: the run reported
  that it processes the rows of the kind (so they were fetched, and the earlier phases let
  the run go on) and reported no failure of that phase. The cleanup committed: the run
  reported the cleanup and no failure of it. \<open>statusPhase\<close> is the phase that sends a
  message (the closing message of success comes after the cleanup).
\<close>

definition phaseCommitted :: "kind \<Rightarrow> status list \<Rightarrow> bool" where
  "phaseCommitted k log =
     (list_ex (\<lambda>s. case s of Processing k' n \<Rightarrow> k' = k | _ \<Rightarrow> False) log \<and>
      list_all (\<lambda>s. case s of FailedStatus ph e \<Rightarrow> ph \<noteq> EntityPhase k | _ \<Rightarrow> True) log)"

definition cleanupCommitted :: "status list \<Rightarrow> bool" where
  "cleanupCommitted log =
     (list_ex (\<lambda>s. case s of CleaningUp \<Rightarrow> True | _ \<Rightarrow> False) log \<and>
      list_all (\<lambda>s. case s of FailedStatus ph e \<Rightarrow> ph \<noteq> CleanupPhase | _ \<Rightarrow> True) log)"










section \<open>The statements of a playlist ingestion\<close>












section \<open>Category precedence\<close>

lemma map_of_addCategory:
  "category_key c \<noteq> ''__proto__'' \<Longrightarrow> map_of (addCategory c obj) = (map_of obj)(category_key c \<mapsto> c)"
  by (simp add: addCategory_def category_key_def update_conv')

lemma addCategory_proto: "category_key c = ''__proto__'' \<Longrightarrow> addCategory c obj = obj"
  by (simp add: addCategory_def category_key_def)

lemma keyed_addCategory: "keyed obj \<Longrightarrow> keyed (addCategory c obj)"
proof (cases "category_key c = ''__proto__''")
  case True
  then show "keyed obj \<Longrightarrow> keyed (addCategory c obj)" by (simp add: addCategory_proto)
next
  case False
  then have n: "js_to_string (category_id c) \<noteq> ''__proto__''" by (simp add: category_key_def)
  assume "keyed obj"
  then show "keyed (addCategory c obj)"
    unfolding keyed_def map_of_addCategory[OF False]
    using n by (simp add: addCategory_def distinct_update)
qed

lemma keyed_fold: "keyed obj \<Longrightarrow> keyed (fold addCategory cs obj)"
  by (induction cs arbitrary: obj) (simp_all add: keyed_addCategory)

lemma map_of_addCategory_other:
  "category_key d \<noteq> k \<Longrightarrow> map_of (addCategory d obj) k = map_of obj k"
  by (cases "category_key d = ''__proto__''") (simp_all add: addCategory_proto map_of_addCategory)

lemma map_of_fold_last:
  "category_key c \<noteq> ''__proto__'' \<Longrightarrow> \<forall>d \<in> set post. category_key d \<noteq> category_key c \<Longrightarrow>
   map_of (fold addCategory (pre @ c # post) obj) (category_key c) = Some c"
proof (induction post arbitrary: pre c obj rule: rev_induct)
  case Nil
  then show ?case by (simp add: map_of_addCategory)
next
  case (snoc d post)
  have a: "\<forall>e \<in> set post. category_key e \<noteq> category_key c" and b: "category_key d \<noteq> category_key c"
    using snoc.prems by auto
  have "fold addCategory (pre @ c # post @ [d]) obj = addCategory d (fold addCategory (pre @ c # post) obj)"
    by simp
  then have "map_of (fold addCategory (pre @ c # post @ [d]) obj) (category_key c)
      = map_of (fold addCategory (pre @ c # post) obj) (category_key c)"
    using b by (simp add: map_of_addCategory_other del: fold_append fold_simps)
  then show ?case using snoc.IH[OF snoc.prems(1) a] by simp
qed

lemma set_object_values: "set (object_values obj) = snd ` set obj"
  by (auto simp: object_values_def)

lemma distinct_object_values:
  assumes "keyed obj" shows "distinct (map category_key (object_values obj))"
proof -
  let ?ix = "filter (\<lambda>p. is_array_index (fst p)) obj"
  let ?no = "filter (\<lambda>p. \<not> is_array_index (fst p)) obj"
  let ?l = "sort_key (\<lambda>p. parseInt (fst p)) ?ix @ ?no"
  have d: "distinct (map fst obj)" using assms by (simp add: keyed_def)
  have k: "fst p = category_key (snd p)" if "p \<in> set obj" for p
  proof -
    have "map_of obj (fst p) = Some (snd p)" using d that by simp
    then show ?thesis using assms unfolding keyed_def by blast
  qed
  have "distinct obj" and i: "inj_on fst (set obj)"
    using d by (auto simp: distinct_map)
  then have "distinct ?l" by auto
  moreover have "set ?l \<subseteq> set obj" by auto
  then have "inj_on fst (set ?l)" using i by (rule inj_on_subset[rotated])
  ultimately have dl: "distinct (map fst ?l)" by (simp only: distinct_map)
  have e: "map fst ?l = map category_key (map snd ?l)"
    using k by (auto simp: comp_def)
  show ?thesis unfolding object_values_def e[symmetric] by (fact dl)
qed

lemma setCategories_notin:
  "\<forall>c \<in> set cs. category_key c \<noteq> k \<Longrightarrow> setCategories cs m k = m k"
  by (induction cs arbitrary: m) (auto simp: category_key_def)

lemma setCategories_distinct:
  "distinct (map category_key cs) \<Longrightarrow> c \<in> set cs \<Longrightarrow>
   setCategories cs m (category_key c) =
     (if truthy (category_id c) \<and> truthy (category_name c) then Some (category_name c)
      else m (category_key c))"
proof (induction cs arbitrary: m)
  case Nil then show ?case by simp
next
  case (Cons d cs)
  show ?case
  proof (cases "d = c")
    case True
    have "\<forall>e \<in> set cs. category_key e \<noteq> category_key c"
    proof
      fix e assume "e \<in> set cs"
      then have "category_key e \<in> set (map category_key cs)" by simp
      moreover have "category_key c \<notin> set (map category_key cs)" using Cons.prems(1) True by simp
      ultimately show "category_key e \<noteq> category_key c" by metis
    qed
    then show ?thesis using True by (simp add: setCategories_notin category_key_def[symmetric])
  next
    case False
    then have "c \<in> set cs" "category_key d \<noteq> category_key c" using Cons.prems by auto
    then show ?thesis using Cons by (auto simp: category_key_def)
  qed
qed

lemma insertCategories_map:
  "insertCategories ev cs t m = Inr (t', m') \<Longrightarrow> m' = setCategories cs m"
  by (induction cs arbitrary: t m) (auto split: if_splits)

lemma merged_category_lookup:
  assumes "\<forall>d \<in> set post. category_key d \<noteq> category_key c" and "category_key c \<noteq> ''__proto__''"
  shows "setCategories (combinedCategories vodCats (FetchedArray (pre @ c # post))) Map.empty (category_key c) =
           (if truthy (category_id c) \<and> truthy (category_name c) then Some (category_name c) else None)"
proof -
  let ?obj = "allCategories vodCats (FetchedArray (pre @ c # post))"
  have ky: "keyed ?obj" unfolding allCategories_def by (intro keyed_fold) (simp add: keyed_def)
  have m: "map_of ?obj (category_key c) = Some c"
    unfolding allCategories_def using assms map_of_fold_last[of c post pre]
    by (simp del: fold_append fold_simps)
  then have "(category_key c, c) \<in> set ?obj" by (rule map_of_SomeD)
  then have "c \<in> set (object_values ?obj)" by (force simp: set_object_values)
  with distinct_object_values[OF ky] show ?thesis
    unfolding combinedCategories_def
    using setCategories_distinct[of "object_values ?obj" c Map.empty]
    by simp
qed

text \<open>
  C8. The category loop (lines 58--83) maps the id of a Series entry (the last one of that id
  in the Series feed, should the feed repeat it; an id other than \<^verbatim>\<open>__proto__\<close>) to the name
  of that Series entry when the id and the name of the entry are both truthy, whatever the
  VOD feed says about the id. When the id or the name of the Series entry is falsy the guard
  of line 74 skips the entry, and the VOD entry of that id is in the merged object no more:
  the map holds no name for the id.
\<close>

theorem series_name_wins:
  assumes "insertCategories ev (combinedCategories vodCats (FetchedArray (pre @ c # post))) t Map.empty
             = Inr (t', categoryMap)"
    and "\<forall>d \<in> set post. js_to_string (category_id d) \<noteq> js_to_string (category_id c)"
    and "js_to_string (category_id c) \<noteq> ''__proto__''"
  shows "(truthy (category_id c) \<and> truthy (category_name c) \<longrightarrow>
            categoryMap (js_to_string (category_id c)) = Some (category_name c)) \<and>
         (\<not> (truthy (category_id c) \<and> truthy (category_name c)) \<longrightarrow>
            categoryMap (js_to_string (category_id c)) = None)"
  using merged_category_lookup[of post c vodCats pre] insertCategories_map[OF assms(1)] assms(2) assms(3)
  by (simp add: category_key_def)

theorem series_name_wins_witness:
  "insertCategories accepting
     (combinedCategories (FetchedArray [\<lparr>category_id = JStr ''5'', category_name = JStr ''Action''\<rparr>])
                         (FetchedArray [\<lparr>category_id = JStr ''5'', category_name = JStr ''Drama''\<rparr>]))
     emptyTables Map.empty
   = Inr (insertCategoryIfAbsent ''5'' (JStr ''Drama'') emptyTables,
          setCategories [\<lparr>category_id = JStr ''5'', category_name = JStr ''Drama''\<rparr>] Map.empty) \<and>
   setCategories [\<lparr>category_id = JStr ''5'', category_name = JStr ''Drama''\<rparr>] Map.empty ''5''
     = Some (JStr ''Drama'')"
proof -
  let ?drama = "\<lparr>category_id = JStr ''5'', category_name = JStr ''Drama''\<rparr>"
  let ?action = "\<lparr>category_id = JStr ''5'', category_name = JStr ''Action''\<rparr>"
  let ?t = "insertCategoryIfAbsent ''5'' (JStr ''Drama'') emptyTables"
  let ?m = "setCategories [?drama] Map.empty"
  have c: "combinedCategories (FetchedArray [?action]) (FetchedArray [?drama]) = [?drama]"
    by code_simp
  have r: "insertCategories accepting [?drama] emptyTables Map.empty = Inr (?t, ?m)"
    by (simp add: accepting_def)
  have h1: "insertCategories accepting
              (combinedCategories (FetchedArray [?action]) (FetchedArray ([] @ ?drama # []))) emptyTables Map.empty
            = Inr (?t, ?m)"
    using c r by simp
  have h2: "\<forall>d \<in> set []. js_to_string (category_id d) \<noteq> js_to_string (category_id ?drama)"
    by simp
  have h3: "js_to_string (category_id ?drama) \<noteq> ''__proto__''" by simp
  have "(truthy (category_id ?drama) \<and> truthy (category_name ?drama) \<longrightarrow>
           ?m (js_to_string (category_id ?drama)) = Some (category_name ?drama)) \<and>
        (\<not> (truthy (category_id ?drama) \<and> truthy (category_name ?drama)) \<longrightarrow>
           ?m (js_to_string (category_id ?drama)) = None)"
    by (rule series_name_wins[OF h1 h2 h3])
  then have "?m ''5'' = Some (JStr ''Drama'')" by simp
  then show ?thesis using c r by simp
qed

text \<open>
  Id 5 named Action in the VOD feed and with an empty name in the Series feed: the loop
  ends without an error and the map holds no name for the id, neither the Series name nor
  the VOD name.
\<close>

theorem series_entry_without_name_drops_category:
  "\<not> isl (insertCategories accepting
            (combinedCategories (FetchedArray [\<lparr>category_id = JStr ''5'', category_name = JStr ''Action''\<rparr>])
                                (FetchedArray [\<lparr>category_id = JStr ''5'', category_name = JStr []\<rparr>]))
            emptyTables Map.empty) \<and>
   snd (projr (insertCategories accepting
            (combinedCategories (FetchedArray [\<lparr>category_id = JStr ''5'', category_name = JStr ''Action''\<rparr>])
                                (FetchedArray [\<lparr>category_id = JStr ''5'', category_name = JStr []\<rparr>]))
            emptyTables Map.empty)) ''5'' = None"
proof -
  have c: "combinedCategories (FetchedArray [\<lparr>category_id = JStr ''5'', category_name = JStr ''Action''\<rparr>])
                              (FetchedArray [\<lparr>category_id = JStr ''5'', category_name = JStr []\<rparr>])
           = [\<lparr>category_id = JStr ''5'', category_name = JStr []\<rparr>]"
    by code_simp
  show ?thesis unfolding c by simp
qed

text \<open>
  A category whose id is \<^verbatim>\<open>__proto__\<close> becomes the prototype of the merged object and is not
  among its values.
\<close>

lemma proto_category_not_listed:
  "combinedCategories (FetchedArray [\<lparr>category_id = JStr ''__proto__'', category_name = JStr ''Action''\<rparr>])
                      (FetchedArray [\<lparr>category_id = JStr ''5'', category_name = JStr ''Drama''\<rparr>])
     = [\<lparr>category_id = JStr ''5'', category_name = JStr ''Drama''\<rparr>]"
  by code_simp

section \<open>Year derivation\<close>

lemma year_token_index_Cons: "year_token_index (c # cs) (Suc i) = year_token_index cs i"
  by (simp add: year_token_index_def add.commute)

lemma year_token_at_0:
  "year_token_at s = (if year_token_index s 0 then Some (take 4 (drop 1 s)) else None)"
proof (cases s rule: year_token_at.cases)
  case (1 p a b c d q rest)
  then show ?thesis by (simp add: year_token_index_def)
qed (simp_all add: year_token_index_def)

lemma year_match_first:
  "year_token_index s i \<Longrightarrow> \<forall>j \<in> set [0..<i]. \<not> year_token_index s j \<Longrightarrow>
   year_match s = Some (take 4 (drop (Suc i) s))"
proof (induction s arbitrary: i)
  case Nil
  then show ?case by (simp add: year_token_index_def)
next
  case (Cons c cs)
  show ?case
  proof (cases i)
    case 0
    then show ?thesis using Cons.prems(1) by (simp add: year_token_at_0)
  next
    case (Suc k)
    have "0 \<in> set [0..<i]" using Suc by auto
    then have n0: "\<not> year_token_index (c # cs) 0" using Cons.prems(2) by blast
    have "year_token_index cs k" using Cons.prems(1) Suc by (simp add: year_token_index_Cons)
    moreover have "\<forall>j \<in> set [0..<k]. \<not> year_token_index cs j"
    proof
      fix j assume "j \<in> set [0..<k]"
      then have "Suc j \<in> set [0..<i]" using Suc by auto
      then have "\<not> year_token_index (c # cs) (Suc j)" using Cons.prems(2) by blast
      then show "\<not> year_token_index cs j" by (simp add: year_token_index_Cons)
    qed
    ultimately have "year_match cs = Some (take 4 (drop (Suc k) cs))" by (rule Cons.IH)
    then show ?thesis using n0 Suc by (simp add: year_token_at_0)
  qed
qed

lemma year_match_none:
  "\<forall>i \<in> set [0..<length s]. \<not> year_token_index s i \<Longrightarrow> year_match s = None"
proof (induction s)
  case Nil
  then show ?case by simp
next
  case (Cons c cs)
  have "0 \<in> set [0..<length (c # cs)]" by auto
  then have n0: "\<not> year_token_index (c # cs) 0" using Cons.prems by blast
  have "\<forall>i \<in> set [0..<length cs]. \<not> year_token_index cs i"
  proof
    fix i assume "i \<in> set [0..<length cs]"
    then have "Suc i \<in> set [0..<length (c # cs)]" by auto
    then have "\<not> year_token_index (c # cs) (Suc i)" using Cons.prems by blast
    then show "\<not> year_token_index cs i" by (simp add: year_token_index_Cons)
  qed
  then have "year_match cs = None" by (rule Cons.IH)
  then show ?case using n0 by (simp add: year_token_at_0)
qed

lemma isoDateOnly_nonempty: "isoDateOnly s = Some d \<Longrightarrow> s \<noteq> []"
  by (cases s) auto

text \<open>
  Lines 117--122, branch by branch. A truthy release date gives what
  \<^verbatim>\<open>new Date(..).getFullYear()\<close> gives for it; without one, the name gives the number written by
  the four digits of its first \<^verbatim>\<open>(YYYY)\<close> token, or null when it has no such token or the row
  has no name; and a truthy name that is not a string makes the row throw.
\<close>

lemma deriveYear_cases:
  "(truthy releaseDate \<longrightarrow> deriveYear gfy releaseDate name = Inr (gfy releaseDate)) \<and>
   (\<not> truthy releaseDate \<and> name = JStr s \<and> year_token_index s i \<and>
      (\<forall>j \<in> set [0..<i]. \<not> year_token_index s j) \<longrightarrow>
      deriveYear gfy releaseDate name = Inr (YNum (parseInt (take 4 (drop (Suc i) s))))) \<and>
   (\<not> truthy releaseDate \<and> name = JStr s \<and> (\<forall>i \<in> set [0..<length s]. \<not> year_token_index s i) \<longrightarrow>
      deriveYear gfy releaseDate name = Inr YNull) \<and>
   (\<not> truthy releaseDate \<and> \<not> truthy name \<longrightarrow> deriveYear gfy releaseDate name = Inr YNull) \<and>
   (\<not> truthy releaseDate \<and> truthy name \<and> (\<forall>s. name \<noteq> JStr s) \<longrightarrow>
      deriveYear gfy releaseDate name = Inl TypeError)"
proof -
  have e: "\<not> year_token_index [] i" by (simp add: year_token_index_def)
  show ?thesis
    using e by (auto simp: deriveYear_def year_match_first year_match_none split: jsval.splits)
qed

text \<open>
  The year of a release date \<^verbatim>\<open>YYYY-MM-DD\<close>: the year written in it, except for a first of
  January on a server west of Greenwich, which gives the year before.
\<close>

lemma release_date_year:
  assumes "isoDateOnly s = Some (y, m, d)"
  shows "deriveYear (getFullYear ev) (JStr s) name =
           Inr (YNum (if timezoneOffset ev < 0 \<and> m = 1 \<and> d = 1 then y - 1 else y))"
  using assms isoDateOnly_nonempty[OF assms] by (simp add: deriveYear_def getFullYear_def)

lemma year_examples:
  "deriveYear (getFullYear accepting) JUndefined (JStr ''Heat (1995)'') = Inr (YNum 1995) \<and>
   deriveYear (getFullYear accepting) (JStr ''1996-01-01'') (JStr ''Heat'') = Inr (YNum 1996) \<and>
   deriveYear (getFullYear accepting) JUndefined (JStr ''Heat'') = Inr YNull \<and>
   deriveYear (getFullYear accepting) JUndefined (JNum 42) = Inl TypeError"
  by (simp add: deriveYear_def getFullYear_def accepting_def is_digit_def parseInt_def digit_val_def
      daysInMonth_def)

text \<open>
  C9. A server whose local time is five hours behind UTC, a movie named Heat with release
  date 1996-01-01: line 118 reads the date as midnight UTC and takes the year of that
  instant in local time, where it is still the 31st of December, so the year derived and
  stored with the movie is 1995.
\<close>

theorem release_date_year_west_of_greenwich:
  "deriveYear (getFullYear westOfGreenwich) (JStr ''1996-01-01'') (JStr ''Heat'') = Inr (YNum 1995) \<and>
   map e_year (entities (content (fst (refreshVodContent westOfGreenwich providerP feedDated 100 emptyStore))) Movie)
     = [YNum 1995]"
proof -
  have a: "deriveYear (getFullYear westOfGreenwich) (JStr ''1996-01-01'') (JStr ''Heat'') = Inr (YNum 1995)"
    by (simp add: deriveYear_def getFullYear_def westOfGreenwich_def accepting_def is_digit_def
        parseInt_def digit_val_def daysInMonth_def)
  have b: "map e_year (entities (content (fst (refreshVodContent westOfGreenwich providerP feedDated 100 emptyStore))) Movie)
             = [YNum 1995]"
    by code_simp
  show ?thesis using a b by simp
qed

section \<open>Playlist parsing\<close>

lemma parseLines_no_url:
  "\<forall>l \<in> set ls. \<not> startsWith (trim l) ''http'' \<Longrightarrow> parseLines ls cur ms ss = (ms, ss)"
  by (induction ls arbitrary: cur) (auto split: option.splits)

text \<open>
  C7, as the source has it. A line that is neither a metadata line nor a URL line leaves
  the pending entry in place; a metadata line replaces it; a URL line closes it, emitting
  it as a movie or as a series when it classifies as one and nothing otherwise, and emits
  nothing when no entry is pending; lines without a URL line among them emit nothing.
\<close>

theorem pending_entry_rules:
  "(\<not> startsWith line ''#EXTINF:'' \<and> \<not> startsWith (trim line) ''http'' \<longrightarrow>
      parseLines (line # rest) cur ms ss = parseLines rest cur ms ss) \<and>
   (startsWith line ''#EXTINF:'' \<longrightarrow>
      parseLines (line # rest) cur ms ss = parseLines rest (Some (parseExtInf line)) ms ss) \<and>
   (\<not> startsWith line ''#EXTINF:'' \<and> startsWith (trim line) ''http'' \<longrightarrow>
      parseLines (line # rest) None ms ss = parseLines rest None ms ss \<and>
      parseLines (line # rest) (Some x) ms ss =
        (if js_includes (trim line) ''/movie/'' \<or> attributeGet (x_attributes x) ''tvg-type'' = Some ''movie''
         then parseLines rest None (ms @ [withUrl x (trim line)]) ss
         else if js_includes (trim line) ''/series/'' \<or> attributeGet (x_attributes x) ''tvg-type'' = Some ''series''
         then parseLines rest None ms (ss @ [withUrl x (trim line)])
         else parseLines rest None ms ss)) \<and>
   ((\<forall>l \<in> set ls. \<not> startsWith (trim l) ''http'') \<longrightarrow> parseLines ls cur ms ss = (ms, ss))"
  by (auto simp: parseLines_no_url Let_def split: option.splits)

theorem pending_entry_rules_witness:
  "parseLines [''#EXTGRP:Films'', ''http://h/movie/1.mp4''] (Some (parseExtInf ''#EXTINF:-1,Heat'')) [] []
     = parseLines [''http://h/movie/1.mp4''] (Some (parseExtInf ''#EXTINF:-1,Heat'')) [] [] \<and>
   parseLines [''#EXTINF:-1,Heat'', ''#EXTINF:-1,Ronin''] None [] [] = ([], [])"
proof -
  have a: "\<not> startsWith ''#EXTGRP:Films'' ''#EXTINF:'' \<and> \<not> startsWith (trim ''#EXTGRP:Films'') ''http''"
    by (simp add: startsWith_def trim_def is_space_def)
  have b: "\<forall>l \<in> set [''#EXTINF:-1,Heat'', ''#EXTINF:-1,Ronin'']. \<not> startsWith (trim l) ''http''"
    by (simp add: startsWith_def trim_def is_space_def)
  show ?thesis
    using a b
      pending_entry_rules[of "''#EXTGRP:Films''" "[''http://h/movie/1.mp4'']"
        "Some (parseExtInf ''#EXTINF:-1,Heat'')" "[]" "[]" undefined "[''#EXTINF:-1,Heat'', ''#EXTINF:-1,Ronin'']"]
      pending_entry_rules[of "''#EXTGRP:Films''" "[]" None "[]" "[]" undefined
        "[''#EXTINF:-1,Heat'', ''#EXTINF:-1,Ronin'']"]
    by blast
qed

text \<open>
  C7 as stated fails: the line after the metadata line is an \<^verbatim>\<open>#EXTGRP\<close> line, not a URL,
  and the entry is emitted all the same, by the URL line that follows.
\<close>

theorem other_line_keeps_pending_entry:
  "map x_url (fst (parsePlaylist (''#EXTINF:-1,Heat'' @ [CHR 0x0A] @ ''#EXTGRP:Films'' @ [CHR 0x0A] @ ''http://h/movie/1.mp4'')))
     = [''http://h/movie/1.mp4'']"
  by code_simp

section \<open>Cleanup\<close>

lemma run_Inr: "run ev s f r = Inr t' \<Longrightarrow> \<exists>t. r = Inr t \<and> t' = f t"
  by (auto simp: run_def split: sum.splits if_splits)

lemma run_accept: "\<not> rejects ev s \<Longrightarrow> run ev s f (Inr t) = Inr (f t)"
  by (simp add: run_def)

lemma cleanupStatements_Inr:
  "cleanupStatements ev B ts t = Inr t' \<Longrightarrow> t' = cleaned B ts t"
  unfolding cleanupStatements_def cleaned_def
  by (auto dest!: run_Inr)

lemma cleanupStatements_accept:
  "\<forall>s. \<not> rejects ev s \<Longrightarrow> cleanupStatements ev B ts t = Inr (cleaned B ts t)"
  unfolding cleanupStatements_def cleaned_def by (simp add: run_accept)

lemma relations_cleaned:
  "relations (cleaned B ts t) k =
     filter (\<lambda>r. \<not> (r_provider_id r = B \<and> r_last_seen r < ts)) (relations t k)"
  by (cases k) (simp_all add: cleaned_def deleteOrphans_def deleteStaleRelations_def)

lemma entities_cleaned:
  "entities (cleaned B ts t) k =
     filter (\<lambda>e. e_id e \<in> set (map r_entity_id (relations (cleaned B ts t) k))) (entities t k)"
  by (cases k) (simp_all add: cleaned_def deleteOrphans_def deleteStaleRelations_def)

lemma cleaned_keeps_shared:
  assumes "e \<in> set (entities t k)" "r \<in> set (relations t k)" "r_entity_id r = e_id e" "r_provider_id r \<noteq> B"
  shows "e \<in> set (entities (cleaned B ts t) k)"
proof -
  have "r \<in> set (relations (cleaned B ts t) k)" using assms by (simp add: relations_cleaned)
  then have "e_id e \<in> set (map r_entity_id (relations (cleaned B ts t) k))" using assms(3) by force
  then show ?thesis using assms(1) by (subst entities_cleaned) simp
qed

lemma catchBlock_open:
  "journal st = Some saved \<Longrightarrow>
   catchBlock ph e st log = (\<lparr>content = saved, journal = None\<rparr>, log @ [FailedStatus ph e], None)"
  by (simp add: catchBlock_def rollback_def)


lemma cleanupPhase_result:
  assumes "journal st = None"
  shows "cleanupPhase ev B ts st log =
           (case cleanupStatements ev B ts (content st) of
              Inl e \<Rightarrow> (st, log @ [CleaningUp, FailedStatus CleanupPhase e], None)
            | Inr t \<Rightarrow> (\<lparr>content = t, journal = None\<rparr>, log @ [CleaningUp], None))"
  using assms
  by (cases st) (simp add: cleanupPhase_def beginTransaction_def commit_def catchBlock_open split: sum.splits)

text \<open>
  C1. When the cleanup of provider \<open>B\<close> commits, each relation table keeps exactly the rows
  that are not stale rows of \<open>B\<close>, and each entity table keeps exactly the entities that a
  remaining relation (of any provider) references; when it does not commit, the store is as
  before. In both cases an entity referenced by a relation of another provider stays.
\<close>

theorem cleanup_deletes_exactly_orphans:
  assumes "journal st = None" and "cleanupPhase ev B ts st log = (st', log', esc)"
  shows "(log' = log @ [CleaningUp] \<longrightarrow>
            (\<forall>k. relations (content st') k =
                   filter (\<lambda>r. \<not> (r_provider_id r = B \<and> r_last_seen r < ts)) (relations (content st) k) \<and>
                 entities (content st') k =
                   filter (\<lambda>e. \<exists>r \<in> set (relations (content st') k). r_entity_id r = e_id e)
                     (entities (content st) k))) \<and>
         (log' \<noteq> log @ [CleaningUp] \<longrightarrow> st' = st) \<and>
         (\<forall>k e r. e \<in> set (entities (content st) k) \<and> r \<in> set (relations (content st) k) \<and>
                  r_entity_id r = e_id e \<and> r_provider_id r \<noteq> B \<longrightarrow>
                  e \<in> set (entities (content st') k))"
proof (cases "cleanupStatements ev B ts (content st)")
  case (Inl e)
  then have "st' = st" "log' = log @ [CleaningUp, FailedStatus CleanupPhase e]"
    using assms by (simp_all add: cleanupPhase_result)
  then show ?thesis by simp
next
  case (Inr t)
  then have t: "t = cleaned B ts (content st)" by (rule cleanupStatements_Inr)
  have st': "content st' = cleaned B ts (content st)" and lg: "log' = log @ [CleaningUp]"
    using assms Inr t by (auto simp: cleanupPhase_result)
  have ent: "entities (content st') k =
               filter (\<lambda>e. \<exists>r \<in> set (relations (content st') k). r_entity_id r = e_id e)
                 (entities (content st) k)" for k
    unfolding st' by (subst entities_cleaned) (rule filter_cong, auto simp: image_iff, metis)
  have keep: "e \<in> set (entities (content st') k)"
    if "e \<in> set (entities (content st) k)" "r \<in> set (relations (content st) k)"
       "r_entity_id r = e_id e" "r_provider_id r \<noteq> B" for k e r
    unfolding st' using that by (rule cleaned_keeps_shared)
  have rel: "relations (content st') k =
               filter (\<lambda>r. \<not> (r_provider_id r = B \<and> r_last_seen r < ts)) (relations (content st) k)" for k
    unfolding st' by (rule relations_cleaned)
  show ?thesis using ent rel keep lg by blast
qed

theorem cleanup_deletes_exactly_orphans_witness:
  "journal sharedStore = None \<and>
   map e_id (entities (content (fst (cleanupPhase accepting ''b'' 5 sharedStore []))) Movie) = [1] \<and>
   movieNamed 1 ''Heat'' ''movie_a_7''
     \<in> set (entities (content (fst (cleanupPhase accepting ''b'' 5 sharedStore []))) Movie)"
proof -
  let ?res = "cleanupPhase accepting ''b'' 5 sharedStore []"
  have j: "journal sharedStore = None" by (simp add: sharedStore_def)
  have r: "?res = (fst ?res, fst (snd ?res), snd (snd ?res))" by simp
  have e: "movieNamed 1 ''Heat'' ''movie_a_7'' \<in> set (entities (content sharedStore) Movie)"
    by (simp add: sharedStore_def sharedTables_def)
  have m: "movieRelation ''a'' 1 ''7'' 3 \<in> set (relations (content sharedStore) Movie)"
    by (simp add: sharedStore_def sharedTables_def)
  have i: "r_entity_id (movieRelation ''a'' 1 ''7'' 3) = e_id (movieNamed 1 ''Heat'' ''movie_a_7'')"
    and p: "r_provider_id (movieRelation ''a'' 1 ''7'' 3) \<noteq> ''b''"
    by (simp_all add: movieRelation_def movieNamed_def)
  have "movieNamed 1 ''Heat'' ''movie_a_7'' \<in> set (entities (content (fst ?res)) Movie)"
    using cleanup_deletes_exactly_orphans[OF j r] e m i p by blast
  moreover have "map e_id (entities (content (fst ?res)) Movie) = [1]"
    by code_simp
  ultimately show ?thesis using j by simp
qed

section \<open>Playlist ingestion is one transaction\<close>










section \<open>Creation and refresh of entities\<close>








section \<open>Failures of a phase\<close>





lemma categories_statement_failure:
  assumes "journal st = None" and "xc_data prov = Usable"
    and "vodCategories fd \<noteq> FetchFailed" and "seriesCategories fd \<noteq> FetchFailed"
    and "insertCategories ev (combinedCategories (vodCategories fd) (seriesCategories fd)) (content st) Map.empty
           = Inl e"
  shows "refreshVodContent ev prov fd ts st =
           (st, [FetchingCategories,
                 ProcessingCategories (length (combinedCategories (vodCategories fd) (seriesCategories fd))),
                 FailedStatus CategoriesPhase e], None)"
proof -
  have "combinedCategories (vodCategories fd) (seriesCategories fd) \<noteq> []"
    using assms(5) by auto
  then show ?thesis
    using assms
    by (cases st) (simp add: refreshVodContent_def categoriesPhase_def Let_def beginTransaction_def catchBlock_open)
qed

text \<open>
  C2, at a feed whose movie request fails. No transaction is open when the handler issues
  ROLLBACK, the store rejects it, and the rejection leaves \<^verbatim>\<open>refreshVodContent\<close>: nothing
  is reported for the movies, and the series and the cleanup are not reached.
\<close>

theorem movies_fetch_failure_ends_run:
  "snd (refreshVodContent accepting providerP (feedOne\<lparr>vodStreams := FetchFailed\<rparr>) 100 emptyStore)
     = ([FetchingCategories, ProcessingCategories 1, Fetching Movie], Some StoreError)"
  by code_simp

text \<open>
  C5, at a feed whose category request fails: the run ends there, but by the rejected
  ROLLBACK, and the failure of the categories is not reported.
\<close>

theorem categories_fetch_failure_not_reported:
  "snd (refreshVodContent accepting providerP (feedOne\<lparr>vodCategories := FetchFailed\<rparr>) 100 emptyStore)
     = ([FetchingCategories], Some StoreError)"
  by code_simp

section \<open>Provider-unique ids\<close>


section \<open>A run as a fold over its rows\<close>



lemma loopResult_Nil: "loopResult ev k p ts cm [] t = (entities t k, relations t k, loadIdMap (entities t k))"
  by (simp add: loopResult_def)


section \<open>What the status sink tells about a run\<close>





lemma not_phaseCommitted_Nil [simp]: "\<not> phaseCommitted k []"
  by (simp add: phaseCommitted_def)

lemma not_cleanupCommitted_Nil [simp]: "\<not> cleanupCommitted []"
  by (simp add: cleanupCommitted_def)



section \<open>The outcome of each phase\<close>





section \<open>A run, kind by kind\<close>


section \<open>The id map and the entity table\<close>


lemma loadIdMap_Nil [simp]: "loadIdMap [] = Map.empty"
  by (simp add: loadIdMap_def)








section \<open>One accepted row\<close>







lemma refresh_keeps [simp]:
  "e_id (refresh ev k cm row e) = e_id e"
  "e_provider_unique_id (refresh ev k cm row e) = e_provider_unique_id e"
  by (simp_all add: refresh_def)



lemma created_sel [simp]:
  "e_id (created ev k cm p row i) = i"
  "e_provider_unique_id (created ev k cm p row i) = Some (uniqueIdOf k p row)"
  by (simp_all add: created_def)

lemma rowRelation_sel [simp]:
  "r_entity_id (rowRelation k p ts row i) = i"
  "r_provider_id (rowRelation k p ts row i) = p"
  "r_last_seen (rowRelation k p ts row i) = ts"
  "r_native_id (rowRelation k p ts row i) = row_native_id row"
  by (simp_all add: rowRelation_def)





section \<open>The loop over the rows\<close>












section \<open>Identity across runs\<close>





section \<open>Where the relations and the fields come from\<close>










section \<open>A second run over the same feed\<close>










end
